theory Spec2Isabelle
  imports Main "HOL-Library.Word"
begin

section \<open>The WebOsFHE contract (WebOsFHE.sol)\<close>

text \<open>
  A shallow embedding of the Solidity contract \<^verbatim>\<open>WebOsFHE\<close>. Every public
  function of the contract is a HOL function from the contract's storage to
  either a revert reason or the storage after the call. The compiler is
  \<^verbatim>\<open>^0.8.24\<close>, so \<^verbatim>\<open>+\<close> and \<^verbatim>\<open>*\<close> on \<^verbatim>\<open>uint256\<close>
  are checked and revert with \<^verbatim>\<open>Panic(0x11)\<close> on overflow, and reading an
  array out of range reverts with \<^verbatim>\<open>Panic(0x32)\<close>.
\<close>

subsection \<open>Values\<close>

type_synonym uint256 = "256 word"
type_synonym uint8 = "8 word"
type_synonym bytes32 = "256 word"
type_synonym bytes = "8 word list"

text \<open>
  Modelled from the spec: the handle type \<^verbatim>\<open>euint32\<close> is declared by the
  imported FHE library, which is not part of the sources. The spec calls it an
  opaque ciphertext handle; here it is a 32-byte value, whose default in a
  storage mapping is zero as for every Solidity value type.
\<close>

type_synonym euint32 = "256 word"

datatype error =
    Error string    \<comment> \<open>\<^verbatim>\<open>require(c, msg)\<close> and \<^verbatim>\<open>revert(msg)\<close>\<close>
  | Panic nat       \<comment> \<open>\<^verbatim>\<open>0x11\<close> arithmetic overflow, \<^verbatim>\<open>0x32\<close> index out of range\<close>
  | UnknownRequest  \<comment> \<open>\<^verbatim>\<open>FHE.checkSignatures\<close> found no request under the id\<close>
  | InvalidProof    \<comment> \<open>\<^verbatim>\<open>FHE.checkSignatures\<close> rejected the signatures\<close>
  | DecodeFailure   \<comment> \<open>\<^verbatim>\<open>abi.decode\<close> reverted\<close>

definition checked_add :: "uint256 \<Rightarrow> uint256 \<Rightarrow> error + uint256" where
  "checked_add a b = (if unat a + unat b < 2 ^ 256 then Inr (a + b) else Inl (Panic 0x11))"

definition checked_mul :: "uint256 \<Rightarrow> uint256 \<Rightarrow> error + uint256" where
  "checked_mul a b = (if unat a * unat b < 2 ^ 256 then Inr (a * b) else Inl (Panic 0x11))"

text \<open>\<^verbatim>\<open>xs[i]\<close> on a memory array.\<close>

definition index :: "'a list \<Rightarrow> nat \<Rightarrow> error + 'a" where
  "index xs i = (if i < length xs then Inr (xs ! i) else Inl (Panic 0x32))"

subsection \<open>The external library and the ABI decoder\<close>

text \<open>
  The contract calls \<^verbatim>\<open>FHE.toBytes32\<close>, \<^verbatim>\<open>FHE.isInitialized\<close>,
  \<^verbatim>\<open>FHE.checkSignatures\<close> and \<^verbatim>\<open>abi.decode\<close>. None of them is part of the
  sources, so they are parameters of the model: \<open>checkSignatures\<close> is
  \<open>True\<close> where the library accepts the signatures of the proof and
  \<open>False\<close> where it rejects them (what else the library call does is
  \<open>FHE_checkSignatures\<close> below); the decoders are \<open>None\<close> where
  \<^verbatim>\<open>abi.decode\<close> reverts.
  \<^verbatim>\<open>FHE.requestDecryption\<close> returns a request id chosen by the oracle: that
  id is an argument \<open>reqId\<close> of the two functions that call it, and the call
  itself, with its ciphertexts and its callback selector, is recorded in
  \<open>oracleRequests\<close>. The model is of the executions in which the library's
  other calls return.
\<close>

record fhe =
  toBytes32 :: "euint32 \<Rightarrow> bytes32"
  isInitialized :: "euint32 \<Rightarrow> bool"
  checkSignatures :: "uint256 \<Rightarrow> bytes \<Rightarrow> bytes \<Rightarrow> bool"
  decodeStrings :: "bytes \<Rightarrow> string list option"
  decodeString :: "bytes \<Rightarrow> string option"

subsection \<open>Storage\<close>

record EncryptedProcess =
  ep_id :: uint256
  encryptedCode :: euint32
  encryptedMemory :: euint32
  encryptedState :: euint32
  timestamp :: uint256

record ProcessResult =
  encryptedOutput :: euint32
  encryptedExecutionTime :: euint32

record DecryptedProcess =
  code :: string
  memory :: string
  state :: string
  isRevealed :: bool

datatype event =
    ProcessCreated uint256 uint256
  | ExecutionRequested uint256
  | ExecutionCompleted uint256
  | DecryptionRequested uint256
  | ProcessDecrypted uint256

datatype selector = decryptProcess_selector | decryptExecutionResult_selector

record contract =
  processCount :: uint256
  encryptedProcesses :: "uint256 \<Rightarrow> EncryptedProcess"
  decryptedProcesses :: "uint256 \<Rightarrow> DecryptedProcess"
  processResults :: "uint256 \<Rightarrow> ProcessResult"
  requestToProcessId :: "uint256 \<Rightarrow> uint256"
  events :: "event list"
  oracleRequests :: "(uint256 \<times> bytes32 list \<times> selector) list"

text \<open>A mapping returns the zero value of its value type at a key never written.\<close>

definition zeroEncryptedProcess :: EncryptedProcess where
  "zeroEncryptedProcess =
     \<lparr>ep_id = 0, encryptedCode = 0, encryptedMemory = 0, encryptedState = 0, timestamp = 0\<rparr>"

definition zeroProcessResult :: ProcessResult where
  "zeroProcessResult = \<lparr>encryptedOutput = 0, encryptedExecutionTime = 0\<rparr>"

definition zeroDecryptedProcess :: DecryptedProcess where
  "zeroDecryptedProcess = \<lparr>code = [], memory = [], state = [], isRevealed = False\<rparr>"

definition deployed :: contract where
  "deployed =
     \<lparr>processCount = 0,
      encryptedProcesses = (\<lambda>_. zeroEncryptedProcess),
      decryptedProcesses = (\<lambda>_. zeroDecryptedProcess),
      processResults = (\<lambda>_. zeroProcessResult),
      requestToProcessId = (\<lambda>_. 0),
      events = [],
      oracleRequests = []\<rparr>"

subsection \<open>The library call that verifies a callback\<close>

text \<open>
  Modelled from the spec: \<^verbatim>\<open>FHE.checkSignatures\<close> belongs to the imported
  library, which is not part of the sources. By the spec (4.2, 4.3) a request
  id that is absent is an unknown request, and the proof is verified against
  the request id and the cleartext, so that the cleartext belongs to the
  ciphertext that was requested. So the library keeps the handles of every
  \<^verbatim>\<open>requestDecryption\<close> under the id it returned (here: the latest entry
  of \<open>oracleRequests\<close> with that id), and \<^verbatim>\<open>checkSignatures\<close> first looks
  them up and reverts when there are none; only then the signatures decide.
  \<open>None\<close> is the call that returns, \<open>Some e\<close> the call that reverts.
\<close>

definition requestedHandles :: "contract \<Rightarrow> uint256 \<Rightarrow> bytes32 list option" where
  "requestedHandles s requestId =
     map_of (rev (map (\<lambda>(reqId, ciphertexts, callback). (reqId, ciphertexts)) (oracleRequests s)))
       requestId"

definition FHE_checkSignatures ::
  "fhe \<Rightarrow> contract \<Rightarrow> uint256 \<Rightarrow> bytes \<Rightarrow> bytes \<Rightarrow> error option" where
  "FHE_checkSignatures lib s requestId cleartexts proofBytes =
     (case requestedHandles s requestId of
        None \<Rightarrow> Some UnknownRequest
      | Some handles \<Rightarrow>
          if checkSignatures lib requestId cleartexts proofBytes then None
          else Some InvalidProof)"

subsection \<open>The functions of the contract\<close>

text \<open>The modifier \<^verbatim>\<open>onlyOwner\<close> has the body \<^verbatim>\<open>_;\<close> and checks nothing.\<close>

definition createEncryptedProcess ::
  "uint256 \<Rightarrow> contract \<Rightarrow> euint32 \<Rightarrow> euint32 \<Rightarrow> euint32 \<Rightarrow> error + contract" where
  "createEncryptedProcess block_timestamp s encCode encMemory encState =
     (case checked_add (processCount s) 1 of
        Inl e \<Rightarrow> Inl e
      | Inr newId \<Rightarrow>
          Inr (s\<lparr>processCount := newId,
                 encryptedProcesses := (encryptedProcesses s)
                   (newId := \<lparr>ep_id = newId, encryptedCode = encCode,
                              encryptedMemory = encMemory, encryptedState = encState,
                              timestamp = block_timestamp\<rparr>),
                 decryptedProcesses := (decryptedProcesses s)
                   (newId := \<lparr>code = [], memory = [], state = [], isRevealed = False\<rparr>),
                 events := events s @ [ProcessCreated newId block_timestamp]\<rparr>))"

definition requestProcessDecryption ::
  "fhe \<Rightarrow> uint256 \<Rightarrow> contract \<Rightarrow> uint256 \<Rightarrow> error + contract" where
  "requestProcessDecryption lib reqId s processId =
     (let process = encryptedProcesses s processId in
      if isRevealed (decryptedProcesses s processId) then Inl (Error ''Already decrypted'')
      else
        let ciphertexts = [toBytes32 lib (encryptedCode process),
                           toBytes32 lib (encryptedMemory process),
                           toBytes32 lib (encryptedState process)]
        in Inr (s\<lparr>oracleRequests :=
                     oracleRequests s @ [(reqId, ciphertexts, decryptProcess_selector)],
                   requestToProcessId := (requestToProcessId s)(reqId := processId),
                   events := events s @ [DecryptionRequested processId]\<rparr>))"

definition decryptProcess ::
  "fhe \<Rightarrow> contract \<Rightarrow> uint256 \<Rightarrow> bytes \<Rightarrow> bytes \<Rightarrow> error + contract" where
  "decryptProcess lib s requestId cleartexts proofBytes =
     (let processId = requestToProcessId s requestId in
      if processId = 0 then Inl (Error ''Invalid request'')
      else
        let dProcess = decryptedProcesses s processId in
        if isRevealed dProcess then Inl (Error ''Already decrypted'')
        else
          case FHE_checkSignatures lib s requestId cleartexts proofBytes of
            Some e \<Rightarrow> Inl e
          | None \<Rightarrow>
          (case decodeStrings lib cleartexts of
            None \<Rightarrow> Inl DecodeFailure
          | Some results \<Rightarrow>
              (case index results 0 of
                 Inl e \<Rightarrow> Inl e
               | Inr r0 \<Rightarrow>
                   (case index results 1 of
                      Inl e \<Rightarrow> Inl e
                    | Inr r1 \<Rightarrow>
                        (case index results 2 of
                           Inl e \<Rightarrow> Inl e
                         | Inr r2 \<Rightarrow>
                             Inr (s\<lparr>decryptedProcesses := (decryptedProcesses s)
                                      (processId := dProcess\<lparr>code := r0, memory := r1,
                                                            state := r2, isRevealed := True\<rparr>),
                                    events := events s @ [ProcessDecrypted processId]\<rparr>))))))"

definition requestProcessExecution :: "contract \<Rightarrow> uint256 \<Rightarrow> error + contract" where
  "requestProcessExecution s processId =
     (if ep_id (encryptedProcesses s processId) = 0 then Inl (Error ''Process not found'')
      else Inr (s\<lparr>events := events s @ [ExecutionRequested processId]\<rparr>))"

definition submitExecutionResult ::
  "contract \<Rightarrow> uint256 \<Rightarrow> euint32 \<Rightarrow> euint32 \<Rightarrow> error + contract" where
  "submitExecutionResult s processId encOutput encExecutionTime =
     Inr (s\<lparr>processResults := (processResults s)
              (processId := \<lparr>encryptedOutput = encOutput,
                             encryptedExecutionTime = encExecutionTime\<rparr>),
            events := events s @ [ExecutionCompleted processId]\<rparr>)"

text \<open>
  The composite key of line 145, \<^verbatim>\<open>processId * 10 + resultType\<close>, with the
  \<^verbatim>\<open>uint8\<close> widened to \<^verbatim>\<open>uint256\<close> and both operations checked; and its
  decoding at lines 154 and 155, \<^verbatim>\<open>compositeId / 10\<close> and
  \<^verbatim>\<open>uint8(compositeId % 10)\<close>.
\<close>

definition encodeComposite :: "uint256 \<Rightarrow> uint8 \<Rightarrow> error + uint256" where
  "encodeComposite processId resultType =
     (case checked_mul processId 10 of
        Inl e \<Rightarrow> Inl e
      | Inr p \<Rightarrow> checked_add p (ucast resultType))"

definition decodeComposite :: "uint256 \<Rightarrow> uint256 \<times> uint8" where
  "decodeComposite compositeId = (compositeId div 10, ucast (compositeId mod 10))"

definition requestResultDecryption ::
  "fhe \<Rightarrow> uint256 \<Rightarrow> contract \<Rightarrow> uint256 \<Rightarrow> uint8 \<Rightarrow> error + contract" where
  "requestResultDecryption lib reqId s processId resultType =
     (let result = processResults s processId in
      if \<not> isInitialized lib (encryptedOutput result) then Inl (Error ''No results available'')
      else
        case (if resultType = 0 then Inr [toBytes32 lib (encryptedOutput result)]
              else if resultType = 1 then Inr [toBytes32 lib (encryptedExecutionTime result)]
              else Inl (Error ''Invalid result type'')) of
          Inl e \<Rightarrow> Inl e
        | Inr ciphertexts \<Rightarrow>
            (case encodeComposite processId resultType of
               Inl e \<Rightarrow> Inl e
             | Inr compositeId \<Rightarrow>
                 Inr (s\<lparr>oracleRequests :=
                          oracleRequests s @ [(reqId, ciphertexts, decryptExecutionResult_selector)],
                        requestToProcessId := (requestToProcessId s)(reqId := compositeId)\<rparr>)))"

definition decryptExecutionResult ::
  "fhe \<Rightarrow> contract \<Rightarrow> uint256 \<Rightarrow> bytes \<Rightarrow> bytes \<Rightarrow> error + contract" where
  "decryptExecutionResult lib s requestId cleartexts proofBytes =
     (let compositeId = requestToProcessId s requestId;
          (processId, resultType) = decodeComposite compositeId
      in case FHE_checkSignatures lib s requestId cleartexts proofBytes of
           Some e \<Rightarrow> Inl e
         | None \<Rightarrow>
             (case decodeString lib cleartexts of
                None \<Rightarrow> Inl DecodeFailure
              | Some result \<Rightarrow> Inr s))"

definition getDecryptedProcess :: "contract \<Rightarrow> uint256 \<Rightarrow> string \<times> string \<times> string \<times> bool" where
  "getDecryptedProcess s processId =
     (let p = decryptedProcesses s processId in (code p, memory p, state p, isRevealed p))"

definition hasExecutionResults :: "fhe \<Rightarrow> contract \<Rightarrow> uint256 \<Rightarrow> bool" where
  "hasExecutionResults lib s processId =
     isInitialized lib (encryptedOutput (processResults s processId))"

subsection \<open>Transactions\<close>

text \<open>
  One call of a public function is one transaction. A transaction that reverts
  leaves the storage and the event log as they were; \<open>transact\<close> is that rule
  of the ledger. A reachable state is \<open>run lib deployed cs\<close> for a list of
  calls \<open>cs\<close>.
\<close>

datatype call =
    CreateEncryptedProcess uint256 euint32 euint32 euint32
  | RequestProcessDecryption uint256 uint256
  | DecryptProcess uint256 bytes bytes
  | RequestProcessExecution uint256
  | SubmitExecutionResult uint256 euint32 euint32
  | RequestResultDecryption uint256 uint256 uint8
  | DecryptExecutionResult uint256 bytes bytes

fun dispatch :: "fhe \<Rightarrow> contract \<Rightarrow> call \<Rightarrow> error + contract" where
  "dispatch lib s (CreateEncryptedProcess ts c m st) = createEncryptedProcess ts s c m st"
| "dispatch lib s (RequestProcessDecryption reqId pid) = requestProcessDecryption lib reqId s pid"
| "dispatch lib s (DecryptProcess rid ct proofBytes) = decryptProcess lib s rid ct proofBytes"
| "dispatch lib s (RequestProcessExecution pid) = requestProcessExecution s pid"
| "dispatch lib s (SubmitExecutionResult pid out t) = submitExecutionResult s pid out t"
| "dispatch lib s (RequestResultDecryption reqId pid rt) = requestResultDecryption lib reqId s pid rt"
| "dispatch lib s (DecryptExecutionResult rid ct proofBytes) = decryptExecutionResult lib s rid ct proofBytes"

definition transact :: "fhe \<Rightarrow> contract \<Rightarrow> call \<Rightarrow> contract" where
  "transact lib s c = (case dispatch lib s c of Inl e \<Rightarrow> s | Inr s' \<Rightarrow> s')"

definition run :: "fhe \<Rightarrow> contract \<Rightarrow> call list \<Rightarrow> contract" where
  "run lib s cs = foldl (transact lib) s cs"

subsection \<open>Traces and a library instance\<close>

text \<open>The number of \<^verbatim>\<open>createEncryptedProcess\<close> calls in a list of calls.\<close>

fun isCreate :: "call \<Rightarrow> bool" where
  "isCreate (CreateEncryptedProcess ts c m st) = True"
| "isCreate _ = False"

definition creations :: "call list \<Rightarrow> nat" where
  "creations cs = length (filter isCreate cs)"

text \<open>
  Modelled from the spec: the FHE library and the decryption oracle are not part
  of the sources. \<open>stubLib\<close> is one instance of them, for evaluating the
  contract at concrete calls: a handle is its own 32 bytes and is initialized
  when it is not zero, the signatures of the proof \<open>[1]\<close> are accepted and
  no others are (for a request id that was issued: \<open>FHE_checkSignatures\<close>
  reverts for every other id, whatever the proof), the
  cleartext \<open>[3]\<close> decodes to the three strings of the spec's round-trip
  example, and the cleartext \<open>[1]\<close> decodes to a single string. Every
  general theorem below holds for all libraries, not only for this one.
\<close>

definition stubLib :: fhe where
  "stubLib =
     \<lparr>toBytes32 = (\<lambda>h. h),
      isInitialized = (\<lambda>h. h \<noteq> 0),
      checkSignatures = (\<lambda>requestId cleartexts proofBytes. proofBytes = [1]),
      decodeStrings = (\<lambda>cleartexts. if cleartexts = [3] then Some [''print(1)'', ''mem0'', ''idle''] else None),
      decodeString = (\<lambda>cleartexts. if cleartexts = [1] then Some ''42'' else None)\<rparr>"

section \<open>Properties\<close>

subsection \<open>Evaluation and arithmetic\<close>

lemmas contract_defs =
  createEncryptedProcess_def requestProcessDecryption_def decryptProcess_def
  requestProcessExecution_def submitExecutionResult_def requestResultDecryption_def
  decryptExecutionResult_def encodeComposite_def decodeComposite_def
  checked_add_def checked_mul_def index_def getDecryptedProcess_def hasExecutionResults_def
  requestedHandles_def FHE_checkSignatures_def
  transact_def run_def deployed_def zeroEncryptedProcess_def zeroProcessResult_def
  zeroDecryptedProcess_def stubLib_def Let_def

lemma unat_ucast_resultType: "unat (ucast (resultType :: uint8) :: uint256) = unat resultType"
proof -
  have "unat resultType < 2 ^ 8" using unsigned_less[of resultType] by simp
  then have "unat resultType < 2 ^ 256" by (rule less_trans) simp
  then show ?thesis by (simp add: unsigned_ucast_eq take_bit_nat_eq_self)
qed

text \<open>The composite key is computed exactly when it fits a \<^verbatim>\<open>uint256\<close>.\<close>

lemma encodeComposite_eq:
  "encodeComposite processId resultType =
     (if unat processId * 10 + unat resultType < 2 ^ 256
      then Inr (processId * 10 + ucast resultType) else Inl (Panic 0x11))"
proof (cases "unat processId * 10 < 2 ^ 256")
  case True
  then have "unat (processId * 10) = unat processId * 10"
    by (simp add: unat_word_ariths)
  then show ?thesis using True
    by (simp add: encodeComposite_def checked_mul_def checked_add_def unat_ucast_resultType)
next
  case False
  then show ?thesis
    by (simp add: encodeComposite_def checked_mul_def)
qed

lemma encodeComposite_Inr:
  assumes "encodeComposite processId resultType = Inr c"
  shows "unat c = unat processId * 10 + unat resultType"
proof -
  from assms have fits: "unat processId * 10 + unat resultType < 2 ^ 256"
    and c: "c = processId * 10 + ucast resultType"
    by (simp_all add: encodeComposite_eq split: if_splits)
  from fits have "unat processId * 10 < 2 ^ 256" by simp
  then have "unat (processId * 10) = unat processId * 10"
    by (simp add: unat_word_ariths)
  then show ?thesis using fits c
    by (simp add: unat_word_ariths unat_ucast_resultType)
qed

subsection \<open>Single calls\<close>

lemma run_Nil: "run lib s [] = s"
  by (simp add: run_def)

lemma run_snoc: "run lib s (cs @ [c]) = transact lib (run lib s cs) c"
  by (simp add: run_def)

lemma createEncryptedProcess_eq:
  "createEncryptedProcess ts s c m st =
     (if unat (processCount s) + 1 < 2 ^ 256
      then Inr (s\<lparr>processCount := processCount s + 1,
                 encryptedProcesses := (encryptedProcesses s)
                   (processCount s + 1 := \<lparr>ep_id = processCount s + 1, encryptedCode = c,
                              encryptedMemory = m, encryptedState = st,
                              timestamp = ts\<rparr>),
                 decryptedProcesses := (decryptedProcesses s)
                   (processCount s + 1 := \<lparr>code = [], memory = [], state = [], isRevealed = False\<rparr>),
                 events := events s @ [ProcessCreated (processCount s + 1) ts]\<rparr>)
      else Inl (Panic 0x11))"
  by (simp add: createEncryptedProcess_def checked_add_def)

lemma unat_succ: "unat (w :: uint256) + 1 < 2 ^ 256 \<Longrightarrow> unat (w + 1) = unat w + 1"
  by (simp add: unat_word_ariths)

text \<open>
  The increment of the counter is checked: at the largest \<^verbatim>\<open>uint256\<close> the
  creation reverts, so the id \<open>0\<close> is never assigned and no id is assigned
  twice by wrapping around.
\<close>

lemma createEncryptedProcess_full_counter:
  "processCount s = - 1 \<Longrightarrow> createEncryptedProcess ts s c m st = Inl (Panic 0x11)"
  by (simp add: createEncryptedProcess_eq unsigned_minus_1_eq_mask mask_eq_exp_minus_1)

lemma dispatch_processCount:
  assumes "dispatch lib s c = Inr s'"
  shows "processCount s' = (if isCreate c then processCount s + 1 else processCount s)"
    and "isCreate c \<Longrightarrow> unat (processCount s) + 1 < 2 ^ 256"
  using assms
  by (cases c; auto simp: createEncryptedProcess_eq requestProcessDecryption_def
      decryptProcess_def requestProcessExecution_def submitExecutionResult_def
      requestResultDecryption_def decryptExecutionResult_def Let_def
      split: if_splits option.splits sum.splits)+

lemma dispatch_encryptedProcesses:
  assumes "dispatch lib s c = Inr s'"
  shows "encryptedProcesses s' pid =
     (case c of
        CreateEncryptedProcess ts ec em es \<Rightarrow>
          if pid = processCount s + 1
          then \<lparr>ep_id = pid, encryptedCode = ec, encryptedMemory = em,
                encryptedState = es, timestamp = ts\<rparr>
          else encryptedProcesses s pid
      | _ \<Rightarrow> encryptedProcesses s pid)"
  using assms
  by (cases c; auto simp: createEncryptedProcess_eq requestProcessDecryption_def
      decryptProcess_def requestProcessExecution_def submitExecutionResult_def
      requestResultDecryption_def decryptExecutionResult_def Let_def
      split: if_splits option.splits sum.splits)

lemma transact_cases:
  obtains (revert) e where "dispatch lib s c = Inl e" "transact lib s c = s"
  | (commit) s' where "dispatch lib s c = Inr s'" "transact lib s c = s'"
  by (cases "dispatch lib s c") (auto simp: transact_def)

lemma revealed_kept_unless_recreated:
  assumes "dispatch lib s c = Inr s'"
    and "isRevealed (decryptedProcesses s pid)"
    and "\<not> isCreate c \<or> pid \<noteq> processCount s + 1"
  shows "decryptedProcesses s' pid = decryptedProcesses s pid"
proof (cases c)
  case (CreateEncryptedProcess ts ec em es)
  then show ?thesis using assms
    by (auto simp: createEncryptedProcess_eq split: if_splits)
next
  case (DecryptProcess rid ct pf)
  then show ?thesis using assms(1,2)
    by (auto simp: decryptProcess_def Let_def split: if_splits option.splits sum.splits)
qed (insert assms(1), auto simp: requestProcessDecryption_def
      requestProcessExecution_def submitExecutionResult_def
      requestResultDecryption_def decryptExecutionResult_def Let_def
      split: if_splits option.splits sum.splits prod.splits)

lemma decryptProcess_target:
  assumes "decryptProcess lib s requestId cleartexts proofBytes = Inr s'"
  shows "isRevealed (decryptedProcesses s' (requestToProcessId s requestId))
       \<and> (\<forall>pid. pid \<noteq> requestToProcessId s requestId \<longrightarrow>
             decryptedProcesses s' pid = decryptedProcesses s pid)"
  using assms
  by (auto simp: decryptProcess_def Let_def split: if_splits option.splits sum.splits)

subsection \<open>Invariants of the reachable states\<close>

lemma creations_snoc: "creations (cs @ [c]) = creations cs + (if isCreate c then 1 else 0)"
  by (simp add: creations_def)

lemma processCount_run:
  "creations cs < 2 ^ 256 \<Longrightarrow> unat (processCount (run lib deployed cs)) = creations cs"
proof (induction cs rule: rev_induct)
  case Nil
  show ?case by (simp add: run_Nil deployed_def creations_def)
next
  case (snoc c cs)
  let ?s = "run lib deployed cs"
  from snoc.prems have lt: "creations cs < 2 ^ 256" and
    lt': "isCreate c \<Longrightarrow> creations cs + 1 < 2 ^ 256"
    by (auto simp: creations_snoc split: if_splits)
  have ih: "unat (processCount ?s) = creations cs" by (rule snoc.IH[OF lt])
  show ?case
  proof (cases "isCreate c")
    case True
    then obtain ts ec em es where c: "c = CreateEncryptedProcess ts ec em es"
      by (cases c) auto
    have fits: "unat (processCount ?s) + 1 < 2 ^ 256" using lt'[OF True] ih by simp
    have "processCount (transact lib ?s c) = processCount ?s + 1"
      using fits by (simp add: c transact_def createEncryptedProcess_eq)
    then show ?thesis using fits ih True
      by (simp add: run_snoc creations_snoc unat_succ)
  next
    case False
    have "processCount (transact lib ?s c) = processCount ?s"
    proof (cases rule: transact_cases[of lib ?s c])
      case (revert e)
      then show ?thesis by simp
    next
      case (commit s')
      then show ?thesis using dispatch_processCount(1)[OF commit(1)] False by simp
    qed
    then show ?thesis using ih False by (simp add: run_snoc creations_snoc)
  qed
qed

lemma never_created_zero:
  "pid = 0 \<or> processCount (run lib deployed cs) < pid \<Longrightarrow>
   encryptedProcesses (run lib deployed cs) pid = zeroEncryptedProcess"
proof (induction cs rule: rev_induct)
  case Nil
  show ?case by (simp add: run_Nil deployed_def)
next
  case (snoc c cs)
  let ?s = "run lib deployed cs"
  show ?case
  proof (cases rule: transact_cases[of lib ?s c])
    case (revert e)
    then show ?thesis using snoc by (simp add: run_snoc)
  next
    case (commit s')
    note pc = dispatch_processCount[OF commit(1)]
    note ep = dispatch_encryptedProcesses[OF commit(1), of pid]
    show ?thesis
    proof (cases "isCreate c")
      case True
      then obtain ts ec em es where c: "c = CreateEncryptedProcess ts ec em es"
        by (cases c) auto
      have fits: "unat (processCount ?s) + 1 < 2 ^ 256" using pc(2)[OF True] .
      have new: "processCount s' = processCount ?s + 1" using pc(1) True by simp
      have unew: "unat (processCount s') = unat (processCount ?s) + 1"
        using new fits by (simp add: unat_succ)
      from snoc.prems have p: "pid = 0 \<or> processCount s' < pid"
        by (simp add: run_snoc commit(2))
      have ne: "pid \<noteq> processCount ?s + 1"
        using p unew new by (auto simp: word_less_nat_alt)
      have old: "pid = 0 \<or> processCount ?s < pid"
        using p unew by (auto simp: word_less_nat_alt)
      have "encryptedProcesses s' pid = encryptedProcesses ?s pid"
        using ep ne by (simp add: c)
      then show ?thesis using snoc.IH[OF old] by (simp add: run_snoc commit(2))
    next
      case False
      then have "processCount s' = processCount ?s" using pc(1) by simp
      moreover have "encryptedProcesses s' pid = encryptedProcesses ?s pid"
        using ep False by (cases c) auto
      ultimately show ?thesis using snoc by (simp add: run_snoc commit(2))
    qed
  qed
qed

lemma dispatch_revealed_zero:
  assumes "dispatch lib s c = Inr s'" and "\<not> isRevealed (decryptedProcesses s 0)"
  shows "\<not> isRevealed (decryptedProcesses s' 0)"
proof (cases c)
  case (CreateEncryptedProcess ts ec em es)
  then have d: "createEncryptedProcess ts s ec em es = Inr s'" using assms(1) by simp
  then have fits: "unat (processCount s) + 1 < 2 ^ 256"
    by (simp add: createEncryptedProcess_eq split: if_splits)
  have "unat (processCount s + 1) \<noteq> 0" using unat_succ[OF fits] by simp
  then have "processCount s + 1 \<noteq> 0" by (metis unat_0)
  then show ?thesis using d assms(2) fits
    by (auto simp: createEncryptedProcess_eq)
next
  case (DecryptProcess rid ct proofBytes)
  then show ?thesis using assms
    by (auto simp: decryptProcess_def Let_def split: if_splits option.splits sum.splits)
qed (insert assms, auto simp: requestProcessDecryption_def
      requestProcessExecution_def submitExecutionResult_def
      requestResultDecryption_def decryptExecutionResult_def Let_def
      split: if_splits option.splits sum.splits)

lemma zero_never_revealed: "\<not> isRevealed (decryptedProcesses (run lib deployed cs) 0)"
proof (induction cs rule: rev_induct)
  case Nil
  show ?case by (simp add: run_Nil deployed_def zeroDecryptedProcess_def)
next
  case (snoc c cs)
  show ?case
  proof (cases rule: transact_cases[of lib "run lib deployed cs" c])
    case (revert e)
    then show ?thesis using snoc by (simp add: run_snoc)
  next
    case (commit s')
    then show ?thesis using dispatch_revealed_zero[OF commit(1) snoc] by (simp add: run_snoc)
  qed
qed

text \<open>
  The correlation table is written only together with a request to the oracle:
  an id under which nothing was requested is mapped to \<open>0\<close>.
\<close>

lemma requestedHandles_snoc:
  "requestedHandles (s\<lparr>oracleRequests := oracleRequests s @ [(reqId, cts, sel)]\<rparr>) rid =
     (if rid = reqId then Some cts else requestedHandles s rid)"
  by (simp add: requestedHandles_def)

lemma dispatch_unregistered:
  assumes "dispatch lib s c = Inr s'" and "requestedHandles s' rid = None"
  shows "requestedHandles s rid = None \<and> requestToProcessId s' rid = requestToProcessId s rid"
  using assms
  by (cases c)
    (auto simp: createEncryptedProcess_eq requestProcessDecryption_def
      decryptProcess_def requestProcessExecution_def submitExecutionResult_def
      requestResultDecryption_def decryptExecutionResult_def Let_def requestedHandles_def
      split: if_splits option.splits sum.splits prod.splits)

lemma unregistered_zero:
  "requestedHandles (run lib deployed cs) rid = None \<Longrightarrow>
   requestToProcessId (run lib deployed cs) rid = 0"
proof (induction cs rule: rev_induct)
  case Nil
  show ?case by (simp add: run_Nil deployed_def)
next
  case (snoc c cs)
  show ?case
  proof (cases rule: transact_cases[of lib "run lib deployed cs" c])
    case (revert e)
    then show ?thesis using snoc by (simp add: run_snoc)
  next
    case (commit s')
    from snoc.prems have "requestedHandles s' rid = None"
      by (simp add: run_snoc commit(2))
    from dispatch_unregistered[OF commit(1) this] snoc.IH
    show ?thesis by (simp add: run_snoc commit(2))
  qed
qed

lemma rejected_signatures_fail:
  "\<not> checkSignatures lib requestId cleartexts proofBytes \<Longrightarrow>
   \<exists>e. FHE_checkSignatures lib s requestId cleartexts proofBytes = Some e"
  by (simp add: FHE_checkSignatures_def split: option.splits)

subsection \<open>The claims\<close>

text \<open>
  C1 (defect in the code). The claim: a callback only ever changes the target
  that was recorded when its request id was registered; a request id registered
  by \<^verbatim>\<open>requestResultDecryption\<close> for \<open>(processId, resultType)\<close>, given to
  \<^verbatim>\<open>decryptProcess\<close> with a verifying proof, changes no
  \<^verbatim>\<open>DecryptedProcess\<close>. The code stores the composite key
  \<open>processId * 10 + resultType\<close> in the same table and \<^verbatim>\<open>decryptProcess\<close>
  reads it as a process id: after a result request for \<open>(1, 0)\<close> with oracle
  id \<open>7\<close>, \<^verbatim>\<open>decryptProcess(7, ...)\<close> reveals the record of process
  \<open>10\<close> and emits \<^verbatim>\<open>ProcessDecrypted(10)\<close>.
\<close>

theorem decryptProcess_misattributed:
  "requestToProcessId (run stubLib deployed
       [SubmitExecutionResult 1 5 6, RequestResultDecryption 7 1 0]) 7 = 10
   \<and> getDecryptedProcess (run stubLib deployed
       [SubmitExecutionResult 1 5 6, RequestResultDecryption 7 1 0]) 10 = ([], [], [], False)
   \<and> getDecryptedProcess (run stubLib deployed
       [SubmitExecutionResult 1 5 6, RequestResultDecryption 7 1 0, DecryptProcess 7 [3] [1]]) 10
       = (''print(1)'', ''mem0'', ''idle'', True)
   \<and> events (run stubLib deployed
       [SubmitExecutionResult 1 5 6, RequestResultDecryption 7 1 0, DecryptProcess 7 [3] [1]])
       = [ExecutionCompleted 1, ProcessDecrypted 10]"
  by (simp add: contract_defs)

text \<open>
  C2. A callback whose proof fails the verification of
  \<^verbatim>\<open>FHE.checkSignatures\<close> (the library call reverts, with the error
  \<open>e\<close>) reverts, in \<^verbatim>\<open>decryptProcess\<close> as in
  \<^verbatim>\<open>decryptExecutionResult\<close>, so the transaction leaves the whole
  contract state, the event log included, as it was.
  \<^verbatim>\<open>decryptProcess\<close> may revert on one of its two earlier checks instead
  of on the proof.
\<close>

theorem invalid_proof_aborts:
  assumes "FHE_checkSignatures lib s requestId cleartexts proofBytes = Some e"
  shows "decryptProcess lib s requestId cleartexts proofBytes =
           Inl (if requestToProcessId s requestId = 0 then Error ''Invalid request''
                else if isRevealed (decryptedProcesses s (requestToProcessId s requestId))
                then Error ''Already decrypted'' else e)
       \<and> decryptExecutionResult lib s requestId cleartexts proofBytes = Inl e
       \<and> transact lib s (DecryptProcess requestId cleartexts proofBytes) = s
       \<and> transact lib s (DecryptExecutionResult requestId cleartexts proofBytes) = s"
  using assms
  by (simp add: decryptProcess_def decryptExecutionResult_def transact_def Let_def
      split: prod.splits)

theorem invalid_proof_aborts_witness:
  "\<not> checkSignatures stubLib 7 [3] [0]
   \<and> FHE_checkSignatures stubLib
        (run stubLib deployed [CreateEncryptedProcess 100 11 12 13, RequestProcessDecryption 7 1])
        7 [3] [0] = Some InvalidProof
   \<and> decryptProcess stubLib
        (run stubLib deployed [CreateEncryptedProcess 100 11 12 13, RequestProcessDecryption 7 1])
        7 [3] [0] = Inl InvalidProof
   \<and> decryptExecutionResult stubLib
        (run stubLib deployed [CreateEncryptedProcess 100 11 12 13, RequestProcessDecryption 7 1])
        7 [3] [0] = Inl InvalidProof"
proof -
  let ?s = "run stubLib deployed [CreateEncryptedProcess 100 11 12 13, RequestProcessDecryption 7 1]"
  have h0: "\<not> checkSignatures stubLib 7 [3] [0]" by (simp add: stubLib_def)
  have h: "FHE_checkSignatures stubLib ?s 7 [3] [0] = Some InvalidProof"
    by (simp add: contract_defs)
  have r: "requestToProcessId ?s 7 = 1" "\<not> isRevealed (decryptedProcesses ?s 1)"
    by (simp_all add: contract_defs)
  show ?thesis
    using h0 h r invalid_proof_aborts[OF h] by simp
qed

text \<open>
  C3. In every reachable state, if the \<^verbatim>\<open>DecryptedProcess\<close> of a process
  is revealed, \<^verbatim>\<open>decryptProcess\<close> with any request id that resolves to
  that process reverts with "Already decrypted", whatever the cleartexts and
  the proof, and the record (code, memory, state, isRevealed) stays as the
  first decryption left it.
\<close>

theorem decryptProcess_revealed_rejected:
  assumes "s = run lib deployed cs"
    and "requestToProcessId s requestId = processId"
    and "isRevealed (decryptedProcesses s processId)"
  shows "decryptProcess lib s requestId cleartexts proofBytes = Inl (Error ''Already decrypted'')
       \<and> transact lib s (DecryptProcess requestId cleartexts proofBytes) = s
       \<and> getDecryptedProcess (transact lib s (DecryptProcess requestId cleartexts proofBytes)) processId
           = getDecryptedProcess s processId"
proof -
  have "processId \<noteq> 0"
    using assms(1,3) zero_never_revealed[of lib cs] by auto
  then have "decryptProcess lib s requestId cleartexts proofBytes = Inl (Error ''Already decrypted'')"
    using assms(2,3) by (simp add: decryptProcess_def Let_def)
  then show ?thesis by (simp add: transact_def)
qed

theorem decryptProcess_revealed_rejected_witness:
  "requestToProcessId (run stubLib deployed
       [CreateEncryptedProcess 100 11 12 13, RequestProcessDecryption 7 1, DecryptProcess 7 [3] [1]]) 7 = 1
   \<and> getDecryptedProcess (run stubLib deployed
       [CreateEncryptedProcess 100 11 12 13, RequestProcessDecryption 7 1, DecryptProcess 7 [3] [1]]) 1
       = (''print(1)'', ''mem0'', ''idle'', True)
   \<and> decryptProcess stubLib (run stubLib deployed
       [CreateEncryptedProcess 100 11 12 13, RequestProcessDecryption 7 1, DecryptProcess 7 [3] [1]])
       7 [3] [1] = Inl (Error ''Already decrypted'')"
proof -
  let ?s = "run stubLib deployed
       [CreateEncryptedProcess 100 11 12 13, RequestProcessDecryption 7 1, DecryptProcess 7 [3] [1]]"
  have a: "requestToProcessId ?s 7 = 1" by (simp add: contract_defs)
  have b: "isRevealed (decryptedProcesses ?s 1)" by (simp add: contract_defs)
  have c: "getDecryptedProcess ?s 1 = (''print(1)'', ''mem0'', ''idle'', True)"
    by (simp add: contract_defs)
  show ?thesis
    using a c decryptProcess_revealed_rejected[OF refl a b, of "[3]" "[1]"] by simp
qed

text \<open>
  C4. In every reachable state, for a request id under which no decryption was
  ever requested, both callbacks fail with an unknown-request error and change
  no state: \<^verbatim>\<open>decryptProcess\<close> on its own check
  (\<^verbatim>\<open>require(processId != 0, "Invalid request")\<close>, the table holding
  \<open>0\<close> for such an id), \<^verbatim>\<open>decryptExecutionResult\<close>, which has no check
  of its own, in \<^verbatim>\<open>FHE.checkSignatures\<close>, whatever the cleartexts and the
  proof.
\<close>

theorem unregistered_request_rejected:
  assumes "s = run lib deployed cs"
    and "requestedHandles s requestId = None"
  shows "requestToProcessId s requestId = 0
       \<and> decryptProcess lib s requestId cleartexts proofBytes = Inl (Error ''Invalid request'')
       \<and> decryptExecutionResult lib s requestId cleartexts proofBytes = Inl UnknownRequest
       \<and> transact lib s (DecryptProcess requestId cleartexts proofBytes) = s
       \<and> transact lib s (DecryptExecutionResult requestId cleartexts proofBytes) = s"
proof -
  have z: "requestToProcessId s requestId = 0"
    using assms unregistered_zero[of lib cs requestId] by simp
  have u: "FHE_checkSignatures lib s requestId cleartexts proofBytes = Some UnknownRequest"
    using assms(2) by (simp add: FHE_checkSignatures_def)
  show ?thesis using z u
    by (simp add: decryptProcess_def decryptExecutionResult_def transact_def Let_def
        split: prod.splits)
qed

theorem unregistered_request_rejected_witness:
  "requestedHandles (run stubLib deployed
       [CreateEncryptedProcess 100 11 12 13, RequestProcessDecryption 7 1]) 5 = None
   \<and> decryptProcess stubLib (run stubLib deployed
       [CreateEncryptedProcess 100 11 12 13, RequestProcessDecryption 7 1]) 5 [3] [1]
       = Inl (Error ''Invalid request'')
   \<and> decryptExecutionResult stubLib (run stubLib deployed
       [CreateEncryptedProcess 100 11 12 13, RequestProcessDecryption 7 1]) 5 [1] [1]
       = Inl UnknownRequest"
proof -
  let ?s = "run stubLib deployed [CreateEncryptedProcess 100 11 12 13, RequestProcessDecryption 7 1]"
  have h: "requestedHandles ?s 5 = None" by (simp add: contract_defs)
  show ?thesis
    using h unregistered_request_rejected[OF refl h, of "[3]" "[1]"]
      unregistered_request_rejected[OF refl h, of "[1]" "[1]"]
    by simp
qed

text \<open>
  C5. In every run from the deployed contract, whatever other calls, failing or
  not, come in between, the \<open>k\<close>-th call of \<^verbatim>\<open>createEncryptedProcess\<close>
  succeeds and is given the id \<open>k\<close>: the counter is one more than before the
  call, the \<^verbatim>\<open>EncryptedProcess\<close> is stored under that id, the
  \<^verbatim>\<open>DecryptedProcess\<close> of that id is empty and unrevealed, and
  \<^verbatim>\<open>ProcessCreated(k, timestamp)\<close> is emitted. The ids of different
  creations differ, since the id read as a number is \<open>k\<close>. The counter is a
  \<^verbatim>\<open>uint256\<close> with a checked increment, so this is for \<open>k < 2 ^ 256\<close>.
\<close>

theorem createEncryptedProcess_assigns_next_id:
  assumes "k = creations pre + 1" and "k < 2 ^ 256"
    and "s = run lib deployed pre"
    and "s' = run lib deployed (pre @ [CreateEncryptedProcess ts encCode encMemory encState])"
  shows "createEncryptedProcess ts s encCode encMemory encState = Inr s'
       \<and> unat (processCount s') = k
       \<and> processCount s' = processCount s + 1
       \<and> encryptedProcesses s' (processCount s') =
            \<lparr>ep_id = processCount s', encryptedCode = encCode, encryptedMemory = encMemory,
             encryptedState = encState, timestamp = ts\<rparr>
       \<and> decryptedProcesses s' (processCount s') =
            \<lparr>code = [], memory = [], state = [], isRevealed = False\<rparr>
       \<and> events s' = events s @ [ProcessCreated (processCount s') ts]"
proof -
  have lt: "creations pre < 2 ^ 256" using assms(1,2) by simp
  have pc: "unat (processCount s) = creations pre"
    using processCount_run[OF lt, of lib] assms(3) by simp
  have fits: "unat (processCount s) + 1 < 2 ^ 256" using pc assms(1,2) by simp
  have s': "s' = transact lib s (CreateEncryptedProcess ts encCode encMemory encState)"
    using assms(3,4) by (simp add: run_snoc)
  have ok: "createEncryptedProcess ts s encCode encMemory encState = Inr s'"
    unfolding s' using fits by (simp add: transact_def createEncryptedProcess_eq)
  have u: "unat (processCount s + 1) = k" using unat_succ[OF fits] pc assms(1) by simp
  show ?thesis
    using ok u fits by (auto simp: createEncryptedProcess_eq)
qed

theorem createEncryptedProcess_assigns_next_id_witness:
  "creations [CreateEncryptedProcess 100 11 12 13, RequestProcessExecution 5,
              DecryptProcess 7 [3] [1]] + 1 = 2
   \<and> (2 :: nat) < 2 ^ 256
   \<and> processCount (run stubLib deployed
        [CreateEncryptedProcess 100 11 12 13, RequestProcessExecution 5,
         DecryptProcess 7 [3] [1], CreateEncryptedProcess 200 21 22 23]) = 2
   \<and> encryptedProcesses (run stubLib deployed
        [CreateEncryptedProcess 100 11 12 13, RequestProcessExecution 5,
         DecryptProcess 7 [3] [1], CreateEncryptedProcess 200 21 22 23]) 2 =
        \<lparr>ep_id = 2, encryptedCode = 21, encryptedMemory = 22, encryptedState = 23,
         timestamp = 200\<rparr>"
proof -
  let ?pre = "[CreateEncryptedProcess 100 11 12 13, RequestProcessExecution 5,
               DecryptProcess 7 [3] [1]]"
  let ?s' = "run stubLib deployed (?pre @ [CreateEncryptedProcess 200 21 22 23])"
  have k: "2 = creations ?pre + 1" by (simp add: creations_def)
  have b: "(2 :: nat) < 2 ^ 256" by simp
  have "unat (processCount ?s') = 2
      \<and> encryptedProcesses ?s' (processCount ?s') =
            \<lparr>ep_id = processCount ?s', encryptedCode = 21, encryptedMemory = 22,
             encryptedState = 23, timestamp = 200\<rparr>"
    using createEncryptedProcess_assigns_next_id[where lib = stubLib and ts = 200 and encCode = 21
        and encMemory = 22 and encState = 23, OF k b refl refl]
    by blast
  moreover from this have "processCount ?s' = 2"
    by (simp add: word_unat_eq_iff)
  ultimately show ?thesis using k b by simp
qed

text \<open>
  C6 (defect in the code). The claim: once \<open>isRevealed\<close> of an id is true it
  stays true and the plaintext fields never change again.
  \<^verbatim>\<open>requestProcessDecryption\<close> does not check that the process exists, so
  the record of id \<open>1\<close> can be revealed before any process was created; the
  first \<^verbatim>\<open>createEncryptedProcess\<close> then takes id \<open>1\<close> and overwrites
  that record with the empty unrevealed one.
\<close>

theorem revealed_record_reset_by_create:
  "processCount (run stubLib deployed
       [RequestProcessDecryption 7 1, DecryptProcess 7 [3] [1]]) = 0
   \<and> getDecryptedProcess (run stubLib deployed
       [RequestProcessDecryption 7 1, DecryptProcess 7 [3] [1]]) 1
       = (''print(1)'', ''mem0'', ''idle'', True)
   \<and> getDecryptedProcess (run stubLib deployed
       [RequestProcessDecryption 7 1, DecryptProcess 7 [3] [1],
        CreateEncryptedProcess 100 11 12 13]) 1
       = ([], [], [], False)"
  by (simp add: contract_defs)

text \<open>
  C7. For \<open>resultType\<close> \<open>0\<close> or \<open>1\<close> and every \<open>processId\<close> for
  which the key \<open>processId * 10 + resultType\<close> was encoded (the checked
  \<^verbatim>\<open>uint256\<close> arithmetic did not revert), decoding the key as
  \<open>(compositeId / 10, compositeId % 10)\<close> gives back \<open>(processId, resultType)\<close>.
\<close>

theorem composite_roundtrip:
  assumes rt: "resultType = 0 \<or> resultType = 1"
    and enc: "encodeComposite processId resultType = Inr compositeId"
  shows "decodeComposite compositeId = (processId, resultType)"
proof -
  have u: "unat compositeId = unat processId * 10 + unat resultType"
    by (rule encodeComposite_Inr[OF enc])
  have small: "unat resultType < 10" using rt by auto
  have d: "unat (compositeId div 10) = unat processId"
    using u small by (simp add: unat_div)
  have m: "unat (compositeId mod 10) = unat resultType"
    using u small by (simp add: unat_mod)
  have "compositeId div 10 = processId" using d by (simp add: word_unat_eq_iff)
  moreover have "(ucast (compositeId mod 10) :: uint8) = resultType"
  proof -
    have "unat (ucast (compositeId mod 10) :: uint8) = unat (compositeId mod 10) mod 2 ^ 8"
      by (simp add: unsigned_ucast_eq take_bit_eq_mod)
    also have "\<dots> = unat resultType" using m small by simp
    finally show ?thesis by (simp add: word_unat_eq_iff)
  qed
  ultimately show ?thesis by (simp add: decodeComposite_def)
qed

theorem composite_roundtrip_witness:
  "encodeComposite 1 0 = Inr 10 \<and> decodeComposite 10 = (1, 0) \<and>
   encodeComposite 1 1 = Inr 11 \<and> decodeComposite 11 = (1, 1) \<and>
   encodeComposite 42 0 = Inr 420 \<and> decodeComposite 420 = (42, 0) \<and>
   encodeComposite 42 1 = Inr 421 \<and> decodeComposite 421 = (42, 1) \<and>
   encodeComposite 9999 0 = Inr 99990 \<and> decodeComposite 99990 = (9999, 0) \<and>
   encodeComposite 9999 1 = Inr 99991 \<and> decodeComposite 99991 = (9999, 1)"
proof -
  have e: "encodeComposite 1 0 = Inr 10" "encodeComposite 1 1 = Inr 11"
    "encodeComposite 42 0 = Inr 420" "encodeComposite 42 1 = Inr 421"
    "encodeComposite 9999 0 = Inr 99990" "encodeComposite 9999 1 = Inr 99991"
    by (simp_all add: encodeComposite_def checked_mul_def checked_add_def)
  show ?thesis
    using e composite_roundtrip[OF _ e(1)] composite_roundtrip[OF _ e(2)]
      composite_roundtrip[OF _ e(3)] composite_roundtrip[OF _ e(4)]
      composite_roundtrip[OF _ e(5)] composite_roundtrip[OF _ e(6)]
    by simp
qed

text \<open>
  C8 (amended). \<^verbatim>\<open>requestResultDecryption(id, resultType)\<close> reverts with
  "No results available" when \<open>hasExecutionResults id\<close> is false; otherwise
  with "Invalid result type" when \<open>resultType\<close> is neither \<open>0\<close> nor \<open>1\<close>;
  otherwise with the overflow panic when \<open>id * 10 + resultType\<close> does not fit
  a \<^verbatim>\<open>uint256\<close>; and otherwise it requests the decryption of the chosen
  handle and registers the composite key under the oracle's request id. A call
  that reverts changes no state.
\<close>

theorem requestResultDecryption_outcome:
  "requestResultDecryption lib reqId s processId resultType =
     (if \<not> hasExecutionResults lib s processId then Inl (Error ''No results available'')
      else if resultType \<noteq> 0 \<and> resultType \<noteq> 1 then Inl (Error ''Invalid result type'')
      else if 2 ^ 256 \<le> unat processId * 10 + unat resultType then Inl (Panic 0x11)
      else Inr (s\<lparr>oracleRequests := oracleRequests s @
                     [(reqId,
                       [toBytes32 lib (if resultType = 0
                          then encryptedOutput (processResults s processId)
                          else encryptedExecutionTime (processResults s processId))],
                       decryptExecutionResult_selector)],
                   requestToProcessId :=
                     (requestToProcessId s)(reqId := processId * 10 + ucast resultType)\<rparr>))
   \<and> (\<forall>e. requestResultDecryption lib reqId s processId resultType = Inl e \<longrightarrow>
          transact lib s (RequestResultDecryption reqId processId resultType) = s)"
  by (simp add: requestResultDecryption_def hasExecutionResults_def encodeComposite_eq
      transact_def Let_def not_less)

theorem requestResultDecryption_outcome_witness:
  "requestResultDecryption stubLib 7 deployed 1 0 = Inl (Error ''No results available'')
   \<and> requestResultDecryption stubLib 7
        (run stubLib deployed [SubmitExecutionResult 1 5 6]) 1 2 = Inl (Error ''Invalid result type'')
   \<and> requestToProcessId (run stubLib deployed
        [SubmitExecutionResult 1 5 6, RequestResultDecryption 7 1 1]) 7 = 11
   \<and> oracleRequests (run stubLib deployed
        [SubmitExecutionResult 1 5 6, RequestResultDecryption 7 1 1])
        = [(7, [6], decryptExecutionResult_selector)]
   \<and> transact stubLib deployed (RequestResultDecryption 7 1 0) = deployed"
proof -
  let ?s = "run stubLib deployed [SubmitExecutionResult 1 5 6]"
  have h0: "\<not> hasExecutionResults stubLib deployed 1"
    by (simp add: contract_defs)
  have h1: "hasExecutionResults stubLib ?s 1"
    by (simp add: contract_defs)
  have p: "processResults ?s 1 = \<lparr>encryptedOutput = 5, encryptedExecutionTime = 6\<rparr>"
    "oracleRequests ?s = []"
    by (simp_all add: contract_defs)
  have z: "toBytes32 stubLib 6 = 6" by (simp add: stubLib_def)
  have r: "run stubLib deployed [SubmitExecutionResult 1 5 6, RequestResultDecryption 7 1 1]
      = transact stubLib ?s (RequestResultDecryption 7 1 1)"
    by (simp add: run_def)
  have a: "requestResultDecryption stubLib 7 deployed 1 0 = Inl (Error ''No results available'')"
    using requestResultDecryption_outcome[of stubLib 7 deployed 1 0] h0 by simp
  have b: "requestResultDecryption stubLib 7 ?s 1 2 = Inl (Error ''Invalid result type'')"
    using requestResultDecryption_outcome[of stubLib 7 ?s 1 2] h1 by simp
  have c: "requestResultDecryption stubLib 7 ?s 1 1 =
      Inr (?s\<lparr>oracleRequests := [(7, [6], decryptExecutionResult_selector)],
              requestToProcessId := (requestToProcessId ?s)(7 := 11)\<rparr>)"
    using requestResultDecryption_outcome[of stubLib 7 ?s 1 1] h1 p z by simp
  have d: "transact stubLib deployed (RequestResultDecryption 7 1 0) = deployed"
    using requestResultDecryption_outcome[of stubLib 7 deployed 1 0] a by blast
  have t: "transact stubLib ?s (RequestResultDecryption 7 1 1) =
      ?s\<lparr>oracleRequests := [(7, [6], decryptExecutionResult_selector)],
         requestToProcessId := (requestToProcessId ?s)(7 := 11)\<rparr>"
    using c by (simp only: transact_def dispatch.simps sum.case)
  show ?thesis unfolding r t using a b d by simp
qed

text \<open>
  The claim C8 as it was stated, without the overflow case, fails for the
  process id \<open>2 ^ 255\<close>: results are available and the result type is
  \<open>0\<close>, but the call reverts and registers nothing.
\<close>

theorem requestResultDecryption_overflow_counterexample:
  "hasExecutionResults stubLib
     (run stubLib deployed [SubmitExecutionResult (2 ^ 255) 5 6]) (2 ^ 255)
   \<and> requestResultDecryption stubLib 7
       (run stubLib deployed [SubmitExecutionResult (2 ^ 255) 5 6]) (2 ^ 255) 0 = Inl (Panic 0x11)
   \<and> requestToProcessId
       (run stubLib deployed
          [SubmitExecutionResult (2 ^ 255) 5 6, RequestResultDecryption 7 (2 ^ 255) 0]) 7 = 0
   \<and> oracleRequests
       (run stubLib deployed
          [SubmitExecutionResult (2 ^ 255) 5 6, RequestResultDecryption 7 (2 ^ 255) 0]) = []"
  by (simp add: contract_defs)

text \<open>
  C9. A call of \<^verbatim>\<open>decryptExecutionResult\<close> that returns normally leaves
  the contract state exactly as it was: the counter, the four mappings and the
  event log; so every query answers as before and the decoded value can not be
  observed.
\<close>

theorem decryptExecutionResult_frame:
  assumes "decryptExecutionResult lib s requestId cleartexts proofBytes = Inr s'"
  shows "s' = s
       \<and> transact lib s (DecryptExecutionResult requestId cleartexts proofBytes) = s
       \<and> getDecryptedProcess s' = getDecryptedProcess s
       \<and> hasExecutionResults lib s' = hasExecutionResults lib s"
proof -
  have "s' = s" using assms
    by (auto simp: decryptExecutionResult_def Let_def split: prod.splits if_splits option.splits)
  then show ?thesis using assms by (simp add: transact_def)
qed

theorem decryptExecutionResult_frame_witness:
  "decryptExecutionResult stubLib
     (run stubLib deployed [SubmitExecutionResult 1 5 6, RequestResultDecryption 7 1 1]) 7 [1] [1]
   = Inr (run stubLib deployed [SubmitExecutionResult 1 5 6, RequestResultDecryption 7 1 1])"
proof -
  let ?s = "run stubLib deployed [SubmitExecutionResult 1 5 6, RequestResultDecryption 7 1 1]"
  have h: "FHE_checkSignatures stubLib ?s 7 [1] [1] = None"
    by (simp add: contract_defs)
  have d: "decodeString stubLib [1] = Some ''42''"
    by (simp add: stubLib_def)
  have "\<exists>s'. decryptExecutionResult stubLib ?s 7 [1] [1] = Inr s'"
    by (simp add: decryptExecutionResult_def h d Let_def split: prod.splits)
  then obtain s' where s': "decryptExecutionResult stubLib ?s 7 [1] [1] = Inr s'" ..
  show ?thesis using decryptExecutionResult_frame[OF s'] s' by simp
qed

text \<open>
  C10 (amended). In every reachable state, for a process id that was never
  created (id \<open>0\<close>, or an id above \<open>processCount\<close>),
  \<^verbatim>\<open>requestProcessDecryption\<close> has no not-found failure. When the
  \<^verbatim>\<open>DecryptedProcess\<close> of that id is unrevealed, as the default record
  is, the call succeeds: it requests the decryption of three zero handles,
  registers the oracle's request id for that id and emits
  \<^verbatim>\<open>DecryptionRequested\<close>. When that record is revealed, the call
  reverts with "Already decrypted".
\<close>

theorem requestProcessDecryption_never_created:
  assumes "s = run lib deployed cs"
    and "processId = 0 \<or> processCount s < processId"
  shows "requestProcessDecryption lib reqId s processId =
           (if isRevealed (decryptedProcesses s processId) then Inl (Error ''Already decrypted'')
            else Inr (s\<lparr>oracleRequests := oracleRequests s @
                     [(reqId, [toBytes32 lib 0, toBytes32 lib 0, toBytes32 lib 0],
                       decryptProcess_selector)],
                   requestToProcessId := (requestToProcessId s)(reqId := processId),
                   events := events s @ [DecryptionRequested processId]\<rparr>))"
proof -
  have "encryptedProcesses s processId = zeroEncryptedProcess"
    using assms(1,2) never_created_zero[of processId lib cs] by simp
  then show ?thesis
    by (simp add: requestProcessDecryption_def Let_def zeroEncryptedProcess_def)
qed

theorem requestProcessDecryption_never_created_witness:
  "processCount (run stubLib deployed [CreateEncryptedProcess 100 11 12 13]) < 9999
   \<and> requestToProcessId (run stubLib deployed
        [CreateEncryptedProcess 100 11 12 13, RequestProcessDecryption 7 9999]) 7 = 9999
   \<and> oracleRequests (run stubLib deployed
        [CreateEncryptedProcess 100 11 12 13, RequestProcessDecryption 7 9999])
        = [(7, [0, 0, 0], decryptProcess_selector)]
   \<and> requestToProcessId (run stubLib deployed
        [CreateEncryptedProcess 100 11 12 13, RequestProcessDecryption 8 0]) 8 = 0
   \<and> events (run stubLib deployed
        [CreateEncryptedProcess 100 11 12 13, RequestProcessDecryption 8 0])
        = [ProcessCreated 1 100, DecryptionRequested 0]"
proof -
  let ?s = "run stubLib deployed [CreateEncryptedProcess 100 11 12 13]"
  have a: "processCount ?s < 9999" by (simp add: contract_defs)
  have b: "isRevealed (decryptedProcesses ?s 9999) = False"
    "isRevealed (decryptedProcesses ?s 0) = False"
    by (simp_all add: contract_defs)
  have e: "events ?s = [ProcessCreated 1 100]" "oracleRequests ?s = []"
    by (simp_all add: contract_defs)
  have r: "run stubLib deployed [CreateEncryptedProcess 100 11 12 13, RequestProcessDecryption 7 9999]
      = transact stubLib ?s (RequestProcessDecryption 7 9999)"
    "run stubLib deployed [CreateEncryptedProcess 100 11 12 13, RequestProcessDecryption 8 0]
      = transact stubLib ?s (RequestProcessDecryption 8 0)"
    by (simp_all add: run_def)
  have z: "toBytes32 stubLib 0 = 0" by (simp add: stubLib_def)
  have t1: "transact stubLib ?s (RequestProcessDecryption 7 9999) =
      ?s\<lparr>oracleRequests := oracleRequests ?s @ [(7, [0, 0, 0], decryptProcess_selector)],
         requestToProcessId := (requestToProcessId ?s)(7 := 9999),
         events := events ?s @ [DecryptionRequested 9999]\<rparr>"
    using requestProcessDecryption_never_created[where reqId = 7, OF refl disjI2[OF a]]
    by (simp only: transact_def dispatch.simps sum.case z b if_False)
  have t2: "transact stubLib ?s (RequestProcessDecryption 8 0) =
      ?s\<lparr>oracleRequests := oracleRequests ?s @ [(8, [0, 0, 0], decryptProcess_selector)],
         requestToProcessId := (requestToProcessId ?s)(8 := 0),
         events := events ?s @ [DecryptionRequested 0]\<rparr>"
    using requestProcessDecryption_never_created[where reqId = 8, OF refl disjI1[OF refl]]
    by (simp only: transact_def dispatch.simps sum.case z b if_False)
  show ?thesis
    unfolding r t1 t2 using a e by simp
qed

text \<open>
  The claim C10 as it was stated, that the call succeeds for every id that was
  never created, fails in a reachable state: the result request for
  \<open>(1, 0)\<close> and the callback \<^verbatim>\<open>decryptProcess\<close> on its request id reveal
  the record of id \<open>10\<close> while no process exists; the request for the
  never-created id \<open>10\<close> then reverts with "Already decrypted".
\<close>

theorem requestProcessDecryption_revealed_counterexample:
  "processCount (run stubLib deployed
       [SubmitExecutionResult 1 5 6, RequestResultDecryption 7 1 0, DecryptProcess 7 [3] [1]]) = 0
   \<and> encryptedProcesses (run stubLib deployed
       [SubmitExecutionResult 1 5 6, RequestResultDecryption 7 1 0, DecryptProcess 7 [3] [1]]) 10
       = zeroEncryptedProcess
   \<and> requestProcessDecryption stubLib 8 (run stubLib deployed
       [SubmitExecutionResult 1 5 6, RequestResultDecryption 7 1 0, DecryptProcess 7 [3] [1]]) 10
       = Inl (Error ''Already decrypted'')"
  by (simp add: contract_defs)

end
